theory Spec2Isabelle
  imports Main
begin

section \<open>Data model\<close>

text \<open>
  A task as the server returns it. The field \<open>task_id\<close> is the JavaScript property
  \<^verbatim>\<open>_id\<close> (an identifier cannot start with an underscore here); the other fields keep
  their names. Identifiers and timestamps are opaque strings.
\<close>

record task =
  task_id :: string
  title :: string
  description :: string
  completed :: bool
  createdAt :: string
  updatedAt :: string

text \<open>
  The slice state of \<^verbatim>\<open>createSlice({name: 'tasks', initialState: ...})\<close>. The error slot
  is \<open>None\<close> for JavaScript's \<^verbatim>\<open>null\<close> and \<open>Some m\<close> for a string \<open>m\<close>.
\<close>

record tasks_state =
  tasks :: "task list"
  loading :: bool
  error :: "string option"

definition initialState :: tasks_state where
  "initialState = \<lparr>tasks = [], loading = False, error = None\<rparr>"

section \<open>What the HTTP client hands to a thunk\<close>

text \<open>
  The body of \<^verbatim>\<open>{title, description}\<close> sent by create and update.
\<close>

datatype task_data = TaskData string string

text \<open>
  A failed request is caught as an object \<^verbatim>\<open>error\<close> of which the thunks read only
  \<^verbatim>\<open>error.response?.data?.message\<close>. Each level may be missing: a transport failure has
  no \<^verbatim>\<open>response\<close>, a response may have no \<^verbatim>\<open>data\<close>, a body may have no
  \<^verbatim>\<open>message\<close>.
\<close>

datatype response_body = Body (message: "string option")

datatype axios_response = Response (data: "response_body option")

datatype axios_error = AxiosError (response: "axios_response option")

text \<open>
  The outcome of one awaited request: it resolves with \<^verbatim>\<open>response.data\<close> or throws.
\<close>

datatype 'a axios_result = Resolved 'a | Failed axios_error

text \<open>The optional chain \<^verbatim>\<open>error.response?.data?.message\<close>.\<close>

definition error_message :: "axios_error \<Rightarrow> string option" where
  "error_message e =
     (case response e of
        None \<Rightarrow> None
      | Some r \<Rightarrow> (case data r of None \<Rightarrow> None | Some b \<Rightarrow> message b))"

text \<open>
  JavaScript truthiness of a value that is a string or missing: \<^verbatim>\<open>undefined\<close>,
  \<^verbatim>\<open>null\<close> and the empty string are falsy, every other string is truthy.
\<close>

definition truthy :: "string option \<Rightarrow> bool" where
  "truthy v = (case v of None \<Rightarrow> False | Some m \<Rightarrow> m \<noteq> [])"

text \<open>The expression \<^verbatim>\<open>v || d\<close> with a string default \<open>d\<close>.\<close>

definition js_or :: "string option \<Rightarrow> string \<Rightarrow> string" where
  "js_or v d = (case v of None \<Rightarrow> d | Some m \<Rightarrow> if m \<noteq> [] then m else d)"

section \<open>Actions and thunks\<close>

text \<open>
  The actions the slice handles: \<^verbatim>\<open>clearError()\<close> and, for each thunk, its pending,
  fulfilled and rejected action with the payload the reducer reads.
\<close>

datatype action =
    ClearError
  | FetchTasksPending | FetchTasksFulfilled "task list" | FetchTasksRejected string
  | AddTaskPending | AddTaskFulfilled task | AddTaskRejected string
  | UpdateTaskPending | UpdateTaskFulfilled task | UpdateTaskRejected string
  | ToggleTaskPending | ToggleTaskFulfilled task | ToggleTaskRejected string
  | DeleteTaskPending | DeleteTaskFulfilled string | DeleteTaskRejected string

text \<open>
  Each thunk's payload creator, as a function of its argument and of the outcome of the one
  request it awaits; the result is the action the thunk settles with.
\<close>

definition fetchTasks :: "task list axios_result \<Rightarrow> action" where
  "fetchTasks r =
     (case r of
        Resolved d \<Rightarrow> FetchTasksFulfilled d
      | Failed e \<Rightarrow> FetchTasksRejected (js_or (error_message e) ''Failed to fetch tasks''))"

definition addTask :: "task_data \<Rightarrow> task axios_result \<Rightarrow> action" where
  "addTask taskData r =
     (case r of
        Resolved d \<Rightarrow> AddTaskFulfilled d
      | Failed e \<Rightarrow> AddTaskRejected (js_or (error_message e) ''Failed to add task''))"

definition updateTask :: "string \<times> task_data \<Rightarrow> task axios_result \<Rightarrow> action" where
  "updateTask arg r =
     (case r of
        Resolved d \<Rightarrow> UpdateTaskFulfilled d
      | Failed e \<Rightarrow> UpdateTaskRejected (js_or (error_message e) ''Failed to update task''))"

definition toggleTask :: "string \<Rightarrow> task axios_result \<Rightarrow> action" where
  "toggleTask i r =
     (case r of
        Resolved d \<Rightarrow> ToggleTaskFulfilled d
      | Failed e \<Rightarrow> ToggleTaskRejected (js_or (error_message e) ''Failed to toggle task''))"

text \<open>The delete thunk ignores the response and returns its own argument.\<close>

definition deleteTask :: "string \<Rightarrow> 'a axios_result \<Rightarrow> action" where
  "deleteTask i r =
     (case r of
        Resolved d \<Rightarrow> DeleteTaskFulfilled i
      | Failed e \<Rightarrow> DeleteTaskRejected (js_or (error_message e) ''Failed to delete task''))"

section \<open>The reducer\<close>

text \<open>
  \<^verbatim>\<open>Array.prototype.findIndex\<close>: the index of the first element satisfying the predicate,
  or \<open>-1\<close> when there is none.
\<close>

primrec findIndex_from :: "('a \<Rightarrow> bool) \<Rightarrow> 'a list \<Rightarrow> int \<Rightarrow> int" where
  "findIndex_from P [] i = - 1"
| "findIndex_from P (x # xs) i = (if P x then i else findIndex_from P xs (i + 1))"

definition findIndex :: "('a \<Rightarrow> bool) \<Rightarrow> 'a list \<Rightarrow> int" where
  "findIndex P xs = findIndex_from P xs 0"

text \<open>The case reducer \<^verbatim>\<open>clearError\<close>.\<close>

definition clearError :: "tasks_state \<Rightarrow> tasks_state" where
  "clearError state = state\<lparr>error := None\<rparr>"

text \<open>
  The slice reducer: \<^verbatim>\<open>reducers\<close> and \<^verbatim>\<open>extraReducers\<close>, one equation per case, in
  the order of the source. The draft mutations become record updates.
\<close>

fun tasksReducer :: "tasks_state \<Rightarrow> action \<Rightarrow> tasks_state" where
  "tasksReducer state ClearError = clearError state"
| "tasksReducer state FetchTasksPending = state\<lparr>loading := True, error := None\<rparr>"
| "tasksReducer state (FetchTasksFulfilled payload) = state\<lparr>loading := False, tasks := payload\<rparr>"
| "tasksReducer state (FetchTasksRejected payload) = state\<lparr>loading := False, error := Some payload\<rparr>"
| "tasksReducer state AddTaskPending = state\<lparr>loading := True, error := None\<rparr>"
| "tasksReducer state (AddTaskFulfilled payload) =
     state\<lparr>loading := False, tasks := payload # tasks state\<rparr>"
| "tasksReducer state (AddTaskRejected payload) = state\<lparr>loading := False, error := Some payload\<rparr>"
| "tasksReducer state UpdateTaskPending = state\<lparr>loading := True, error := None\<rparr>"
| "tasksReducer state (UpdateTaskFulfilled payload) =
     (let index = findIndex (\<lambda>t. task_id t = task_id payload) (tasks state)
      in if index \<noteq> - 1
         then state\<lparr>loading := False, tasks := (tasks state)[nat index := payload]\<rparr>
         else state\<lparr>loading := False\<rparr>)"
| "tasksReducer state (UpdateTaskRejected payload) = state\<lparr>loading := False, error := Some payload\<rparr>"
| "tasksReducer state ToggleTaskPending = state\<lparr>loading := True, error := None\<rparr>"
| "tasksReducer state (ToggleTaskFulfilled payload) =
     (let index = findIndex (\<lambda>t. task_id t = task_id payload) (tasks state)
      in if index \<noteq> - 1
         then state\<lparr>loading := False, tasks := (tasks state)[nat index := payload]\<rparr>
         else state\<lparr>loading := False\<rparr>)"
| "tasksReducer state (ToggleTaskRejected payload) = state\<lparr>loading := False, error := Some payload\<rparr>"
| "tasksReducer state DeleteTaskPending = state\<lparr>loading := True, error := None\<rparr>"
| "tasksReducer state (DeleteTaskFulfilled payload) =
     state\<lparr>loading := False, tasks := filter (\<lambda>t. task_id t \<noteq> payload) (tasks state)\<rparr>"
| "tasksReducer state (DeleteTaskRejected payload) = state\<lparr>loading := False, error := Some payload\<rparr>"

section \<open>The list view\<close>

text \<open>
  The decimal text of a number, as a count appears inside a section title.
  \<open>show_nat\<close> asks \<open>digit_char\<close> for digits below ten only.
\<close>

definition digit_char :: "nat \<Rightarrow> char" where
  "digit_char d = ''0123456789'' ! d"

fun show_nat :: "nat \<Rightarrow> string" where
  "show_nat n = (if n < 10 then [digit_char n] else show_nat (n div 10) @ [digit_char (n mod 10)])"

declare show_nat.simps [simp del]

text \<open>
  What \<^verbatim>\<open>TaskList\<close> returns: the spinner with its caption, the error paragraph, the
  empty state with its heading and hint, or the list of sections, each a title and the
  tasks that get one row each.
\<close>

datatype task_section = Section (section_title: string) (section_rows: "task list")

datatype rendered =
    Spinner string
  | ErrorText string
  | EmptyState string string
  | Sections "task_section list"

definition TaskList :: "tasks_state \<Rightarrow> rendered" where
  "TaskList state =
     (if loading state then Spinner ''Loading tasks...''
      else if truthy (error state) then ErrorText (''Error: '' @ the (error state))
      else if length (tasks state) = 0
        then EmptyState ''No tasks yet'' ''Add your first task to get started!''
      else
        (let completedTasks = filter (\<lambda>t. completed t) (tasks state);
             pendingTasks = filter (\<lambda>t. \<not> completed t) (tasks state)
         in Sections
              ((if length pendingTasks > 0
                then [Section (''Pending Tasks ('' @ show_nat (length pendingTasks) @ '')'')
                        pendingTasks]
                else []) @
               (if length completedTasks > 0
                then [Section (''Completed Tasks ('' @ show_nat (length completedTasks) @ '')'')
                        completedTasks]
                else []))))"

section \<open>Auxiliary definitions\<close>

text \<open>
  The list that the fulfilled reducers of update and of toggle leave in
  \<^verbatim>\<open>state.tasks\<close>: both run the same three lines (\<^verbatim>\<open>findIndex\<close>, the test against
  \<open>-1\<close>, the assignment at the index), here with the payload \<open>p\<close> and the list \<open>ts\<close>.
\<close>

definition replace_first :: "task \<Rightarrow> task list \<Rightarrow> task list" where
  "replace_first p ts =
     (let index = findIndex (\<lambda>t. task_id t = task_id p) ts
      in if index \<noteq> - 1 then ts[nat index := p] else ts)"

text \<open>
  Tasks as the slice's tests write them, \<^verbatim>\<open>{ _id, title, completed }\<close>, the remaining
  fields empty; and the three tasks \<^verbatim>\<open>mockTasks\<close> of the list view's tests.
\<close>

definition mockTask :: "string \<Rightarrow> string \<Rightarrow> bool \<Rightarrow> task" where
  "mockTask i t c =
     \<lparr>task_id = i, title = t, description = [], completed = c, createdAt = [], updatedAt = []\<rparr>"

definition mockTasks :: "task list" where
  "mockTasks =
     [\<lparr>task_id = ''1'', title = ''Pending Task 1'', description = ''Description 1'',
       completed = False, createdAt = ''2023-01-01T00:00:00.000Z'',
       updatedAt = ''2023-01-01T00:00:00.000Z''\<rparr>,
      \<lparr>task_id = ''2'', title = ''Pending Task 2'', description = ''Description 2'',
       completed = False, createdAt = ''2023-01-02T00:00:00.000Z'',
       updatedAt = ''2023-01-02T00:00:00.000Z''\<rparr>,
      \<lparr>task_id = ''3'', title = ''Completed Task 1'', description = ''Description 3'',
       completed = True, createdAt = ''2023-01-03T00:00:00.000Z'',
       updatedAt = ''2023-01-03T00:00:00.000Z''\<rparr>]"

section \<open>States the application reaches\<close>

text \<open>
  The actions a thunk settles with: whatever its payload creator returns for some outcome
  of its request. The delete thunk never reads the response, so the type of the body is
  immaterial and taken to be \<open>unit\<close>.
\<close>

inductive settles :: "action \<Rightarrow> bool" where
  fetch: "settles (fetchTasks r)"
| add: "settles (addTask taskData r)"
| update: "settles (updateTask arg r)"
| toggle: "settles (toggleTask i r)"
| delete: "settles (deleteTask i (r :: unit axios_result))"

text \<open>
  The slice states of a running application: the store starts in \<^verbatim>\<open>initialState\<close>, and
  the components dispatch only \<^verbatim>\<open>clearError()\<close> and the five thunks, each of which
  dispatches its pending action and then the action it settles with.
\<close>

inductive reachable :: "tasks_state \<Rightarrow> bool" where
  initial: "reachable initialState"
| cleared: "reachable s \<Longrightarrow> reachable (tasksReducer s ClearError)"
| fetch_pending: "reachable s \<Longrightarrow> reachable (tasksReducer s FetchTasksPending)"
| add_pending: "reachable s \<Longrightarrow> reachable (tasksReducer s AddTaskPending)"
| update_pending: "reachable s \<Longrightarrow> reachable (tasksReducer s UpdateTaskPending)"
| toggle_pending: "reachable s \<Longrightarrow> reachable (tasksReducer s ToggleTaskPending)"
| delete_pending: "reachable s \<Longrightarrow> reachable (tasksReducer s DeleteTaskPending)"
| settled: "reachable s \<Longrightarrow> settles a \<Longrightarrow> reachable (tasksReducer s a)"

section \<open>Facts about findIndex and in-place replacement\<close>

lemma findIndex_from_none: "\<forall>x\<in>set xs. \<not> P x \<Longrightarrow> findIndex_from P xs i = - 1"
  by (induction xs arbitrary: i) auto

lemma findIndex_from_first:
  "\<forall>x\<in>set xs. \<not> P x \<Longrightarrow> P y \<Longrightarrow> findIndex_from P (xs @ y # ys) i = i + int (length xs)"
  by (induction xs arbitrary: i) auto

lemma findIndex_none: "\<forall>x\<in>set xs. \<not> P x \<Longrightarrow> findIndex P xs = - 1"
  by (simp add: findIndex_def findIndex_from_none)

lemma findIndex_first:
  "\<forall>x\<in>set xs. \<not> P x \<Longrightarrow> P y \<Longrightarrow> findIndex P (xs @ y # ys) = int (length xs)"
  by (simp add: findIndex_def findIndex_from_first)

lemma tasks_update: "tasks (tasksReducer s (UpdateTaskFulfilled p)) = replace_first p (tasks s)"
  by (simp add: replace_first_def Let_def)

lemma tasks_toggle: "tasks (tasksReducer s (ToggleTaskFulfilled p)) = replace_first p (tasks s)"
  by (simp add: replace_first_def Let_def)

lemma replace_first_absent:
  "task_id p \<notin> task_id ` set ts \<Longrightarrow> replace_first p ts = ts"
proof -
  assume "task_id p \<notin> task_id ` set ts"
  then have "\<forall>t\<in>set ts. \<not> task_id t = task_id p" by (metis imageI)
  then have "findIndex (\<lambda>t. task_id t = task_id p) ts = - 1" by (rule findIndex_none)
  then show ?thesis by (simp add: replace_first_def)
qed

lemma replace_first_split:
  assumes "task_id p \<notin> task_id ` set xs" and "task_id t = task_id p"
  shows "replace_first p (xs @ t # ys) = xs @ p # ys"
proof -
  from assms(1) have "\<forall>u\<in>set xs. \<not> task_id u = task_id p" by (metis imageI)
  then have "findIndex (\<lambda>u. task_id u = task_id p) (xs @ t # ys) = int (length xs)"
    using assms(2) by (rule findIndex_first)
  then show ?thesis by (simp add: replace_first_def)
qed

lemma replace_first_index:
  assumes "distinct (map task_id ts)" and "i < length ts" and "task_id (ts ! i) = task_id p"
  shows "replace_first p ts = ts[i := p]"
proof -
  have ts: "ts = take i ts @ ts ! i # drop (Suc i) ts"
    using assms(2) by (simp add: id_take_nth_drop)
  have "task_id p \<notin> task_id ` set (take i ts)"
  proof
    assume "task_id p \<in> task_id ` set (take i ts)"
    then obtain j where j: "j < i" "task_id (ts ! j) = task_id p"
      using assms(2) by (auto simp: in_set_conv_nth)
    with assms(2,3) have "map task_id ts ! j = map task_id ts ! i"
      and "j < length (map task_id ts)" and "i < length (map task_id ts)"
      by simp_all
    with assms(1) have "j = i" by (metis nth_eq_iff_index_eq)
    with j show False by simp
  qed
  then have "replace_first p (take i ts @ ts ! i # drop (Suc i) ts) = take i ts @ p # drop (Suc i) ts"
    using assms(3) by (rule replace_first_split)
  with ts have "replace_first p ts = take i ts @ p # drop (Suc i) ts" by simp
  also have "\<dots> = ts[i := p]"
    using assms(2) by (simp add: upd_conv_take_nth_drop)
  finally show ?thesis .
qed

lemma replace_first_first_match:
  assumes "i < length ts" and "task_id (ts ! i) = task_id p"
    and "\<forall>j<i. task_id (ts ! j) \<noteq> task_id p"
  shows "replace_first p ts = ts[i := p]"
proof -
  have ts: "ts = take i ts @ ts ! i # drop (Suc i) ts"
    using assms(1) by (simp add: id_take_nth_drop)
  have "task_id p \<notin> task_id ` set (take i ts)"
  proof
    assume "task_id p \<in> task_id ` set (take i ts)"
    then obtain j where "j < i" and "task_id (ts ! j) = task_id p"
      using assms(1) by (auto simp: in_set_conv_nth)
    with assms(3) show False by simp
  qed
  then have "replace_first p (take i ts @ ts ! i # drop (Suc i) ts) =
      take i ts @ p # drop (Suc i) ts"
    using assms(2) by (rule replace_first_split)
  with ts have "replace_first p ts = take i ts @ p # drop (Suc i) ts" by simp
  also have "\<dots> = ts[i := p]"
    using assms(1) by (simp add: upd_conv_take_nth_drop)
  finally show ?thesis .
qed

lemma first_match_exists:
  assumes "task_id p \<in> task_id ` set ts"
  shows "\<exists>k<length ts. task_id (ts ! k) = task_id p \<and>
           (\<forall>j<k. task_id (ts ! j) \<noteq> task_id p)"
proof -
  from assms have "\<exists>t\<in>set ts. task_id t = task_id p" by auto
  then obtain xs t ys where ts: "ts = xs @ t # ys" and t: "task_id t = task_id p"
    and xs: "\<forall>u\<in>set xs. task_id u \<noteq> task_id p"
    using split_list_first_prop [of ts "\<lambda>t. task_id t = task_id p"] by blast
  have "length xs < length ts" using ts by simp
  moreover have "task_id (ts ! length xs) = task_id p" using ts t by simp
  moreover have "\<forall>j<length xs. task_id (ts ! j) \<noteq> task_id p"
    using ts xs by (simp add: nth_append)
  ultimately show ?thesis by blast
qed

lemma length_replace_first: "length (replace_first p ts) = length ts"
  by (simp add: replace_first_def Let_def)

text \<open>
  With unique identifiers, filtering out an identifier that occurs removes one element and
  keeps the elements on both sides of it.
\<close>

lemma filter_unique:
  assumes "distinct (map f ts)" and "i \<in> f ` set ts"
  shows "\<exists>xs t ys. ts = xs @ t # ys \<and> f t = i \<and> filter (\<lambda>u. f u \<noteq> i) ts = xs @ ys"
proof -
  from assms(2) obtain t where "t \<in> set ts" "f t = i" by auto
  then obtain xs ys where ts: "ts = xs @ t # ys" by (auto dest: split_list)
  with assms(1) have "f t \<notin> f ` set xs" and "f t \<notin> f ` set ys"
    by simp_all
  with \<open>f t = i\<close> have "\<forall>u\<in>set xs. f u \<noteq> i" and "\<forall>u\<in>set ys. f u \<noteq> i"
    by (metis imageI)+
  then have "filter (\<lambda>u. f u \<noteq> i) xs = xs" "filter (\<lambda>u. f u \<noteq> i) ys = ys"
    by (simp_all add: filter_id_conv)
  with ts \<open>f t = i\<close> show ?thesis by auto
qed

section \<open>Delete\<close>

text \<open>
  C1. For every task list whose identifiers are unique and every identifier \<open>i\<close> occurring
  in it: the delete thunk, whatever the response body, settles with the identifier it was
  dispatched with, and its fulfilled reducer removes exactly one entry, the one whose
  identifier is \<open>i\<close>; the entries before and after it stay, in their order, so the list is
  one shorter.
\<close>

theorem delete_removes_dispatched_entry:
  assumes "distinct (map task_id (tasks s))" and "i \<in> task_id ` set (tasks s)"
  shows "deleteTask i (Resolved body) = DeleteTaskFulfilled i \<and>
         (\<exists>xs t ys. tasks s = xs @ t # ys \<and> task_id t = i \<and>
            tasks (tasksReducer s (deleteTask i (Resolved body))) = xs @ ys) \<and>
         length (tasks (tasksReducer s (deleteTask i (Resolved body)))) + 1 = length (tasks s)"
proof -
  have thunk: "deleteTask i (Resolved body) = DeleteTaskFulfilled i"
    by (simp add: deleteTask_def)
  from assms obtain xs t ys where
    split: "tasks s = xs @ t # ys" "task_id t = i"
      "filter (\<lambda>u. task_id u \<noteq> i) (tasks s) = xs @ ys"
    using filter_unique [of task_id "tasks s" i] by blast
  have after: "tasks (tasksReducer s (deleteTask i (Resolved body))) = xs @ ys"
    using split(3) by (simp add: thunk)
  have "length (xs @ ys) + 1 = length (xs @ t # ys)" by simp
  with split(1) after
  have "length (tasks (tasksReducer s (deleteTask i (Resolved body)))) + 1 = length (tasks s)"
    by simp
  with thunk split(1,2) after show ?thesis by blast
qed

theorem delete_removes_dispatched_entry_witness:
  "distinct (map task_id [mockTask ''1'' ''Task 1'' False, mockTask ''2'' ''Task 2'' True]) \<and>
   ''1'' \<in> task_id ` set [mockTask ''1'' ''Task 1'' False, mockTask ''2'' ''Task 2'' True] \<and>
   tasks (tasksReducer
       \<lparr>tasks = [mockTask ''1'' ''Task 1'' False, mockTask ''2'' ''Task 2'' True],
        loading = True, error = None\<rparr>
       (deleteTask ''1'' (Resolved ''ignored''))) = [mockTask ''2'' ''Task 2'' True] \<and>
   length (tasks (tasksReducer
       \<lparr>tasks = [mockTask ''1'' ''Task 1'' False, mockTask ''2'' ''Task 2'' True],
        loading = True, error = None\<rparr>
       (deleteTask ''1'' (Resolved ''ignored'')))) + 1 = 2"
proof -
  let ?s = "\<lparr>tasks = [mockTask ''1'' ''Task 1'' False, mockTask ''2'' ''Task 2'' True],
             loading = True, error = None\<rparr>"
  have d: "distinct (map task_id (tasks ?s))" by (simp add: mockTask_def)
  have m: "''1'' \<in> task_id ` set (tasks ?s)" by (simp add: mockTask_def)
  from delete_removes_dispatched_entry [OF d m, of "''ignored''"] d m
  show ?thesis by (simp add: mockTask_def deleteTask_def)
qed

section \<open>Create\<close>

lemma tasks_after_creates:
  "tasks (foldl tasksReducer s (map AddTaskFulfilled ts)) = rev ts @ tasks s"
  by (induction ts arbitrary: s) simp_all

text \<open>
  C2. A fulfilled create puts the returned record at the front of the list and keeps all
  previous entries behind it, unchanged. Hence for every starting state and every sequence
  of fulfilled creates, after each of them the first element of the list is the task
  created last, and after the whole sequence the list is the created tasks, newest first,
  followed by the starting list.
\<close>

theorem create_prepends:
  "addTask taskData (Resolved t) = AddTaskFulfilled t \<and>
   tasks (tasksReducer s (AddTaskFulfilled t)) = t # tasks s \<and>
   tasks (foldl tasksReducer s (map AddTaskFulfilled (ts @ [t]))) =
     t # tasks (foldl tasksReducer s (map AddTaskFulfilled ts)) \<and>
   hd (tasks (foldl tasksReducer s (map AddTaskFulfilled (ts @ [t])))) = t \<and>
   tasks (foldl tasksReducer s (map AddTaskFulfilled ts)) = rev ts @ tasks s"
  by (simp add: addTask_def tasks_after_creates)

theorem create_prepends_witness:
  "tasks (tasksReducer
      \<lparr>tasks = [mockTask ''1'' ''Existing Task'' False], loading = True, error = None\<rparr>
      (AddTaskFulfilled (mockTask ''2'' ''New Task'' False))) =
     [mockTask ''2'' ''New Task'' False, mockTask ''1'' ''Existing Task'' False] \<and>
   hd (tasks (foldl tasksReducer
      \<lparr>tasks = [mockTask ''1'' ''Existing Task'' False], loading = True, error = None\<rparr>
      (map AddTaskFulfilled
         ([mockTask ''2'' ''New Task'' False] @ [mockTask ''3'' ''Newest Task'' False])))) =
     mockTask ''3'' ''Newest Task'' False"
  using create_prepends
    [of "TaskData ''New Task'' []" "mockTask ''3'' ''Newest Task'' False"
        "\<lparr>tasks = [mockTask ''1'' ''Existing Task'' False], loading = True, error = None\<rparr>"
        "[mockTask ''2'' ''New Task'' False]"]
  by simp

section \<open>Pending, rejected and settled transitions\<close>

text \<open>
  C3. For every slice state, the pending transition of each of the five asynchronous
  operations (fetch, create, update, toggle, delete) sets the error slot to none, whatever
  it held before.
\<close>

theorem pending_clears_error:
  "error (tasksReducer s FetchTasksPending) = None \<and>
   error (tasksReducer s AddTaskPending) = None \<and>
   error (tasksReducer s UpdateTaskPending) = None \<and>
   error (tasksReducer s ToggleTaskPending) = None \<and>
   error (tasksReducer s DeleteTaskPending) = None"
  by simp

theorem pending_clears_error_witness:
  "error (tasksReducer \<lparr>tasks = [], loading = False, error = Some ''Failed to add task''\<rparr>
            ToggleTaskPending) = None"
  using pending_clears_error
    [of "\<lparr>tasks = [], loading = False, error = Some ''Failed to add task''\<rparr>"]
  by simp

text \<open>
  C5. For every slice state and each of the five asynchronous operations, the rejected
  transition changes the loading flag to false and the error slot to the message, and
  nothing else: the task list is exactly as before. The same holds for the action each
  thunk settles with when its request fails.
\<close>

theorem rejected_keeps_tasks:
  "tasksReducer s (FetchTasksRejected m) = s\<lparr>loading := False, error := Some m\<rparr> \<and>
   tasksReducer s (AddTaskRejected m) = s\<lparr>loading := False, error := Some m\<rparr> \<and>
   tasksReducer s (UpdateTaskRejected m) = s\<lparr>loading := False, error := Some m\<rparr> \<and>
   tasksReducer s (ToggleTaskRejected m) = s\<lparr>loading := False, error := Some m\<rparr> \<and>
   tasksReducer s (DeleteTaskRejected m) = s\<lparr>loading := False, error := Some m\<rparr> \<and>
   tasks (tasksReducer s (fetchTasks (Failed e))) = tasks s \<and>
   tasks (tasksReducer s (addTask taskData (Failed e))) = tasks s \<and>
   tasks (tasksReducer s (updateTask (i, taskData) (Failed e))) = tasks s \<and>
   tasks (tasksReducer s (toggleTask i (Failed e))) = tasks s \<and>
   tasks (tasksReducer s (deleteTask i (Failed e))) = tasks s"
  by (simp add: fetchTasks_def addTask_def updateTask_def toggleTask_def deleteTask_def)

theorem rejected_keeps_tasks_witness:
  "tasks (tasksReducer
      \<lparr>tasks = [mockTask ''1'' ''Task 1'' False, mockTask ''2'' ''Task 2'' True],
       loading = True, error = None\<rparr>
      (DeleteTaskRejected ''Failed to delete task'')) =
     [mockTask ''1'' ''Task 1'' False, mockTask ''2'' ''Task 2'' True] \<and>
   error (tasksReducer
      \<lparr>tasks = [mockTask ''1'' ''Task 1'' False, mockTask ''2'' ''Task 2'' True],
       loading = True, error = None\<rparr>
      (DeleteTaskRejected ''Failed to delete task'')) = Some ''Failed to delete task''"
  using rejected_keeps_tasks
    [of "\<lparr>tasks = [mockTask ''1'' ''Task 1'' False, mockTask ''2'' ''Task 2'' True],
          loading = True, error = None\<rparr>" "''Failed to delete task''"]
  by simp

text \<open>
  C10. For every slice state, every fulfilled and every rejected transition of each of
  the five asynchronous operations leaves the loading flag false, whatever it was. The flag
  counts nothing: with a toggle and a delete both pending the flag is true, and the toggle's
  completion alone sets it to false while the delete is still in flight.
\<close>

theorem settled_resets_loading:
  "\<not> loading (tasksReducer s (FetchTasksFulfilled ts)) \<and>
   \<not> loading (tasksReducer s (AddTaskFulfilled t)) \<and>
   \<not> loading (tasksReducer s (UpdateTaskFulfilled t)) \<and>
   \<not> loading (tasksReducer s (ToggleTaskFulfilled t)) \<and>
   \<not> loading (tasksReducer s (DeleteTaskFulfilled i)) \<and>
   \<not> loading (tasksReducer s (FetchTasksRejected m)) \<and>
   \<not> loading (tasksReducer s (AddTaskRejected m)) \<and>
   \<not> loading (tasksReducer s (UpdateTaskRejected m)) \<and>
   \<not> loading (tasksReducer s (ToggleTaskRejected m)) \<and>
   \<not> loading (tasksReducer s (DeleteTaskRejected m)) \<and>
   loading (tasksReducer (tasksReducer s ToggleTaskPending) DeleteTaskPending) \<and>
   \<not> loading (tasksReducer (tasksReducer (tasksReducer s ToggleTaskPending) DeleteTaskPending)
                 (ToggleTaskFulfilled t))"
  by (simp add: Let_def)

theorem settled_resets_loading_witness:
  "\<not> loading (tasksReducer
       (tasksReducer (tasksReducer initialState ToggleTaskPending) DeleteTaskPending)
       (ToggleTaskFulfilled (mockTask ''1'' ''Task 1'' True)))"
  using settled_resets_loading [of initialState _ "mockTask ''1'' ''Task 1'' True"]
  by simp

section \<open>Error messages\<close>

text \<open>
  C4, as amended. When a request fails, each thunk settles with a rejected action that
  carries the message field of the server's response if that field is present and is a
  non-empty string, and otherwise (no response, no body, no message, or an empty message)
  the default string of the operation: "Failed to fetch tasks", "Failed to add task",
  "Failed to update task", "Failed to toggle task", "Failed to delete task". The rejected
  reducer stores exactly the string it is given in the error slot.
\<close>

theorem rejected_message_policy:
  "(error_message e = Some m \<and> m \<noteq> [] \<longrightarrow>
      fetchTasks (Failed e) = FetchTasksRejected m \<and>
      addTask taskData (Failed e) = AddTaskRejected m \<and>
      updateTask (i, taskData) (Failed e) = UpdateTaskRejected m \<and>
      toggleTask i (Failed e) = ToggleTaskRejected m \<and>
      deleteTask i (Failed e) = DeleteTaskRejected m) \<and>
   (error_message e = None \<or> error_message e = Some [] \<longrightarrow>
      fetchTasks (Failed e) = FetchTasksRejected ''Failed to fetch tasks'' \<and>
      addTask taskData (Failed e) = AddTaskRejected ''Failed to add task'' \<and>
      updateTask (i, taskData) (Failed e) = UpdateTaskRejected ''Failed to update task'' \<and>
      toggleTask i (Failed e) = ToggleTaskRejected ''Failed to toggle task'' \<and>
      deleteTask i (Failed e) = DeleteTaskRejected ''Failed to delete task'') \<and>
   error (tasksReducer s (FetchTasksRejected msg)) = Some msg \<and>
   error (tasksReducer s (AddTaskRejected msg)) = Some msg \<and>
   error (tasksReducer s (UpdateTaskRejected msg)) = Some msg \<and>
   error (tasksReducer s (ToggleTaskRejected msg)) = Some msg \<and>
   error (tasksReducer s (DeleteTaskRejected msg)) = Some msg"
  by (auto simp: fetchTasks_def addTask_def updateTask_def toggleTask_def deleteTask_def
      js_or_def)

theorem rejected_message_policy_witness:
  "error (tasksReducer initialState
      (addTask (TaskData ''Test Task'' [])
         (Failed (AxiosError (Some (Response (Some (Body (Some ''Validation error'')))))))))
     = Some ''Validation error'' \<and>
   error (tasksReducer initialState
      (addTask (TaskData ''Test Task'' []) (Failed (AxiosError None))))
     = Some ''Failed to add task''"
proof -
  have a: "error_message (AxiosError (Some (Response (Some (Body (Some ''Validation error''))))))
      = Some ''Validation error'' \<and> ''Validation error'' \<noteq> []"
    by (simp add: error_message_def)
  have b: "error_message (AxiosError None) = None \<or> error_message (AxiosError None) = Some []"
    by (simp add: error_message_def)
  from a rejected_message_policy
      [of "AxiosError (Some (Response (Some (Body (Some ''Validation error'')))))"
          "''Validation error''" "TaskData ''Test Task'' []"]
  have "addTask (TaskData ''Test Task'' [])
      (Failed (AxiosError (Some (Response (Some (Body (Some ''Validation error''))))))) =
      AddTaskRejected ''Validation error''"
    by blast
  moreover from b rejected_message_policy [of "AxiosError None" _ "TaskData ''Test Task'' []"]
  have "addTask (TaskData ''Test Task'' []) (Failed (AxiosError None)) =
      AddTaskRejected ''Failed to add task''"
    by blast
  ultimately show ?thesis by simp
qed

text \<open>
  C4 as stated fails for a message that is present but empty: a failed create whose
  response body is \<^verbatim>\<open>{message: ""}\<close> is rejected with "Failed to add task", not with the
  message.
\<close>

theorem empty_message_replaced_by_default:
  "error_message (AxiosError (Some (Response (Some (Body (Some [])))))) = Some [] \<and>
   addTask (TaskData ''Test Task'' [])
      (Failed (AxiosError (Some (Response (Some (Body (Some []))))))) =
     AddTaskRejected ''Failed to add task'' \<and>
   addTask (TaskData ''Test Task'' [])
      (Failed (AxiosError (Some (Response (Some (Body (Some []))))))) \<noteq>
     AddTaskRejected []"
  by (simp add: error_message_def addTask_def js_or_def)

section \<open>Update and toggle\<close>

text \<open>
  C6. For every task list, with or without repeated identifiers, and every fulfilled
  update or toggle with returned record \<open>p\<close>: if no entry has the identifier of \<open>p\<close>, the
  list is unchanged (nothing is inserted); if some entry has it, the first such entry, at
  position \<open>i\<close>, is replaced by \<open>p\<close> at the same position and every other position holds
  what it held before. With unique identifiers the entry with the identifier of \<open>p\<close> is
  that first one, wherever it stands. In every case the length is unchanged.
\<close>

theorem update_toggle_in_place:
  assumes "a = UpdateTaskFulfilled p \<or> a = ToggleTaskFulfilled p"
  shows "(task_id p \<notin> task_id ` set (tasks s) \<longrightarrow> tasks (tasksReducer s a) = tasks s) \<and>
         (i < length (tasks s) \<and> task_id (tasks s ! i) = task_id p \<and>
          (\<forall>j<i. task_id (tasks s ! j) \<noteq> task_id p) \<longrightarrow>
            tasks (tasksReducer s a) = (tasks s)[i := p] \<and>
            tasks (tasksReducer s a) ! i = p \<and>
            (\<forall>j < length (tasks s). j \<noteq> i \<longrightarrow> tasks (tasksReducer s a) ! j = tasks s ! j)) \<and>
         (distinct (map task_id (tasks s)) \<and> i < length (tasks s) \<and>
          task_id (tasks s ! i) = task_id p \<longrightarrow>
            tasks (tasksReducer s a) = (tasks s)[i := p] \<and>
            tasks (tasksReducer s a) ! i = p \<and>
            (\<forall>j < length (tasks s). j \<noteq> i \<longrightarrow> tasks (tasksReducer s a) ! j = tasks s ! j)) \<and>
         (task_id p \<in> task_id ` set (tasks s) \<longrightarrow>
            (\<exists>k<length (tasks s). task_id (tasks s ! k) = task_id p \<and>
               (\<forall>j<k. task_id (tasks s ! j) \<noteq> task_id p) \<and>
               tasks (tasksReducer s a) = (tasks s)[k := p])) \<and>
         length (tasks (tasksReducer s a)) = length (tasks s)"
proof -
  from assms have eq: "tasks (tasksReducer s a) = replace_first p (tasks s)"
    by (elim disjE) (simp_all only: tasks_update tasks_toggle)
  have absent: "task_id p \<notin> task_id ` set (tasks s) \<longrightarrow> tasks (tasksReducer s a) = tasks s"
    by (simp add: eq replace_first_absent)
  have at_index: "tasks (tasksReducer s a) ! k = p \<and>
      (\<forall>j < length (tasks s). j \<noteq> k \<longrightarrow> tasks (tasksReducer s a) ! j = tasks s ! j)"
    if "tasks (tasksReducer s a) = (tasks s)[k := p]" and "k < length (tasks s)" for k
    using that by simp
  have first: "tasks (tasksReducer s a) = (tasks s)[k := p]"
    if "k < length (tasks s)" and "task_id (tasks s ! k) = task_id p"
      and "\<forall>j<k. task_id (tasks s ! j) \<noteq> task_id p" for k
    using that by (simp add: eq replace_first_first_match)
  have unique: "tasks (tasksReducer s a) = (tasks s)[i := p]"
    if "distinct (map task_id (tasks s))" and "i < length (tasks s)"
      and "task_id (tasks s ! i) = task_id p"
    using that by (simp add: eq replace_first_index)
  have some: "task_id p \<in> task_id ` set (tasks s) \<longrightarrow>
      (\<exists>k<length (tasks s). task_id (tasks s ! k) = task_id p \<and>
         (\<forall>j<k. task_id (tasks s ! j) \<noteq> task_id p) \<and>
         tasks (tasksReducer s a) = (tasks s)[k := p])"
    using first_match_exists [of p "tasks s"] first by blast
  have len: "length (tasks (tasksReducer s a)) = length (tasks s)"
    by (simp add: eq length_replace_first)
  from absent first [of i] unique at_index [of i] some len show ?thesis by blast
qed

theorem update_toggle_in_place_witness:
  "tasks (tasksReducer
      \<lparr>tasks = [mockTask ''1'' ''Original Task'' False, mockTask ''2'' ''Another Task'' False],
       loading = True, error = None\<rparr>
      (UpdateTaskFulfilled (mockTask ''2'' ''Updated Task'' True))) =
     [mockTask ''1'' ''Original Task'' False, mockTask ''2'' ''Updated Task'' True] \<and>
   tasks (tasksReducer
      \<lparr>tasks = [mockTask ''1'' ''Original Task'' False, mockTask ''2'' ''Another Task'' False],
       loading = True, error = None\<rparr>
      (ToggleTaskFulfilled (mockTask ''3'' ''Unknown Task'' True))) =
     [mockTask ''1'' ''Original Task'' False, mockTask ''2'' ''Another Task'' False] \<and>
   tasks (tasksReducer
      \<lparr>tasks = [mockTask ''1'' ''Task 1'' False, mockTask ''2'' ''Task 2'' False,
                mockTask ''2'' ''Task 2 again'' False],
       loading = True, error = None\<rparr>
      (ToggleTaskFulfilled (mockTask ''1'' ''Task 1'' True))) =
     [mockTask ''1'' ''Task 1'' True, mockTask ''2'' ''Task 2'' False,
      mockTask ''2'' ''Task 2 again'' False]"
proof -
  let ?s = "\<lparr>tasks = [mockTask ''1'' ''Original Task'' False, mockTask ''2'' ''Another Task'' False],
             loading = True, error = None\<rparr>"
  let ?d = "\<lparr>tasks = [mockTask ''1'' ''Task 1'' False, mockTask ''2'' ''Task 2'' False,
                mockTask ''2'' ''Task 2 again'' False],
             loading = True, error = None\<rparr>"
  have present: "distinct (map task_id (tasks ?s)) \<and> (1::nat) < length (tasks ?s) \<and>
      task_id (tasks ?s ! 1) = task_id (mockTask ''2'' ''Updated Task'' True)"
    by (simp add: mockTask_def)
  have absent: "task_id (mockTask ''3'' ''Unknown Task'' True) \<notin> task_id ` set (tasks ?s)"
    by (simp add: mockTask_def)
  have first: "(0::nat) < length (tasks ?d) \<and>
      task_id (tasks ?d ! 0) = task_id (mockTask ''1'' ''Task 1'' True) \<and>
      (\<forall>j<0::nat. task_id (tasks ?d ! j) \<noteq> task_id (mockTask ''1'' ''Task 1'' True))"
    by (simp add: mockTask_def)
  from present
    update_toggle_in_place
      [of "UpdateTaskFulfilled (mockTask ''2'' ''Updated Task'' True)"
          "mockTask ''2'' ''Updated Task'' True" ?s 1]
  have "tasks (tasksReducer ?s (UpdateTaskFulfilled (mockTask ''2'' ''Updated Task'' True))) =
      (tasks ?s)[1 := mockTask ''2'' ''Updated Task'' True]"
    by blast
  moreover from absent
    update_toggle_in_place
      [of "ToggleTaskFulfilled (mockTask ''3'' ''Unknown Task'' True)"
          "mockTask ''3'' ''Unknown Task'' True" ?s 0]
  have "tasks (tasksReducer ?s (ToggleTaskFulfilled (mockTask ''3'' ''Unknown Task'' True))) =
      tasks ?s"
    by blast
  moreover from first
    update_toggle_in_place
      [of "ToggleTaskFulfilled (mockTask ''1'' ''Task 1'' True)"
          "mockTask ''1'' ''Task 1'' True" ?d 0]
  have "tasks (tasksReducer ?d (ToggleTaskFulfilled (mockTask ''1'' ''Task 1'' True))) =
      (tasks ?d)[0 := mockTask ''1'' ''Task 1'' True]"
    by blast
  ultimately show ?thesis by simp
qed

section \<open>Duplicate identifiers\<close>

text \<open>
  C9. For every task list and returned record \<open>p\<close>, wherever the first entry with the
  identifier of \<open>p\<close> stands (the list is \<open>xs @ t # ys\<close> with no such entry in \<open>xs\<close>): a
  fulfilled update or toggle replaces that first entry only, so every later entry with the
  same identifier, inside \<open>ys\<close>, stays as it is; a fulfilled delete for that identifier
  removes every entry that has it, so none is left and the list shrinks by the number of
  such entries.
\<close>

theorem duplicates_first_replaced_all_deleted:
  assumes "tasks s = xs @ t # ys" and "task_id t = task_id p"
    and "task_id p \<notin> task_id ` set xs"
  shows "tasks (tasksReducer s (UpdateTaskFulfilled p)) = xs @ p # ys \<and>
         tasks (tasksReducer s (ToggleTaskFulfilled p)) = xs @ p # ys \<and>
         tasks (tasksReducer s (DeleteTaskFulfilled (task_id p))) =
           xs @ filter (\<lambda>u. task_id u \<noteq> task_id p) ys \<and>
         task_id p \<notin> task_id ` set (tasks (tasksReducer s (DeleteTaskFulfilled (task_id p)))) \<and>
         length (tasks (tasksReducer s (DeleteTaskFulfilled (task_id p)))) +
           length (filter (\<lambda>u. task_id u = task_id p) (tasks s)) = length (tasks s)"
proof -
  have first: "replace_first p (tasks s) = xs @ p # ys"
    using assms by (simp add: replace_first_split)
  from assms(3) have "\<forall>u\<in>set xs. task_id u \<noteq> task_id p" by (metis imageI)
  then have "filter (\<lambda>u. task_id u \<noteq> task_id p) xs = xs" by (simp add: filter_id_conv)
  with assms(1,2)
  have del: "tasks (tasksReducer s (DeleteTaskFulfilled (task_id p))) =
      xs @ filter (\<lambda>u. task_id u \<noteq> task_id p) ys"
    by simp
  have gone: "task_id p \<notin> task_id ` set (tasks (tasksReducer s (DeleteTaskFulfilled (task_id p))))"
    by auto
  have count: "length (tasks (tasksReducer s (DeleteTaskFulfilled (task_id p)))) +
      length (filter (\<lambda>u. task_id u = task_id p) (tasks s)) = length (tasks s)"
    using sum_length_filter_compl [of "\<lambda>u. task_id u = task_id p" "tasks s"] by simp
  from first del gone count show ?thesis
    by (simp only: tasks_update tasks_toggle simp_thms)
qed

theorem duplicates_first_replaced_all_deleted_witness:
  "tasks (tasksReducer
      \<lparr>tasks = [mockTask ''1'' ''Task 1'' False, mockTask ''2'' ''Task 2'' False,
                mockTask ''3'' ''Task 3'' True, mockTask ''2'' ''Task 2 again'' False],
       loading = True, error = None\<rparr>
      (ToggleTaskFulfilled (mockTask ''2'' ''Task 2'' True))) =
     [mockTask ''1'' ''Task 1'' False, mockTask ''2'' ''Task 2'' True,
      mockTask ''3'' ''Task 3'' True, mockTask ''2'' ''Task 2 again'' False] \<and>
   tasks (tasksReducer
      \<lparr>tasks = [mockTask ''1'' ''Task 1'' False, mockTask ''2'' ''Task 2'' False,
                mockTask ''3'' ''Task 3'' True, mockTask ''2'' ''Task 2 again'' False],
       loading = True, error = None\<rparr>
      (DeleteTaskFulfilled ''2'')) =
     [mockTask ''1'' ''Task 1'' False, mockTask ''3'' ''Task 3'' True]"
proof -
  let ?s = "\<lparr>tasks = [mockTask ''1'' ''Task 1'' False, mockTask ''2'' ''Task 2'' False,
                mockTask ''3'' ''Task 3'' True, mockTask ''2'' ''Task 2 again'' False],
       loading = True, error = None\<rparr>"
  have a: "tasks ?s = [mockTask ''1'' ''Task 1'' False] @ mockTask ''2'' ''Task 2'' False #
      [mockTask ''3'' ''Task 3'' True, mockTask ''2'' ''Task 2 again'' False]"
    by simp
  have b: "task_id (mockTask ''2'' ''Task 2'' False) = task_id (mockTask ''2'' ''Task 2'' True)"
    by (simp add: mockTask_def)
  have c: "task_id (mockTask ''2'' ''Task 2'' True) \<notin>
      task_id ` set [mockTask ''1'' ''Task 1'' False]"
    by (simp add: mockTask_def)
  have d: "task_id (mockTask ''2'' ''Task 2'' True) = ''2''"
    by (simp add: mockTask_def)
  from duplicates_first_replaced_all_deleted [OF a b c]
  show ?thesis unfolding d by (simp add: mockTask_def)
qed

section \<open>The outcomes of the list view\<close>

text \<open>
  A thunk that fails settles with a non-empty message, so the error slot of a state the
  application reaches is none or a non-empty string, never the empty string.
\<close>

lemma js_or_nonempty: "d \<noteq> [] \<Longrightarrow> js_or v d \<noteq> []"
  by (simp add: js_or_def split: option.split)

lemma settles_error:
  assumes "settles a"
  shows "error (tasksReducer s a) = error s \<or>
         (\<exists>m. m \<noteq> [] \<and> error (tasksReducer s a) = Some m)"
  using assms
proof cases
  case (fetch r)
  then show ?thesis
    by (cases r) (simp_all add: fetchTasks_def js_or_nonempty)
next
  case (add taskData r)
  then show ?thesis
    by (cases r) (simp_all add: addTask_def js_or_nonempty)
next
  case (update arg r)
  then show ?thesis
    by (cases r) (simp_all add: updateTask_def js_or_nonempty Let_def)
next
  case (toggle i r)
  then show ?thesis
    by (cases r) (simp_all add: toggleTask_def js_or_nonempty Let_def)
next
  case (delete i r)
  then show ?thesis
    by (cases r) (simp_all add: deleteTask_def js_or_nonempty)
qed

lemma reachable_error_nonempty: "reachable s \<Longrightarrow> error s \<noteq> Some []"
proof (induction rule: reachable.induct)
  case initial
  then show ?case by (simp add: initialState_def)
next
  case (cleared s)
  then show ?case by (simp add: clearError_def)
next
  case (settled s a)
  from settles_error [OF settled.hyps(2), of s] settled.IH show ?case by auto
qed simp_all

text \<open>
  C7. For every slice state the list view renders one of four outcomes, in this priority
  order: the spinner if loading is true; else the error text if an error is present, the
  view's test \<^verbatim>\<open>if (error)\<close> being true of every non-empty message; else (the error
  slot being none or the empty string) the empty-state message if the list is empty; else
  the sections: the pending tasks (those not completed) first and the completed tasks
  second, a section only for a non-empty group, each title carrying the number of tasks of
  its group. At least one section is rendered, and the two groups together hold every task
  of the list. The four outcomes are different constructors, so they exclude each other.
  In every state the application reaches the error slot is none or non-empty, so there
  the error text is rendered whenever loading is false and the slot is not none.
\<close>

theorem TaskList_outcomes:
  "(loading s \<longrightarrow> TaskList s = Spinner ''Loading tasks...'') \<and>
   (\<not> loading s \<and> error s = Some m \<and> m \<noteq> [] \<longrightarrow> TaskList s = ErrorText (''Error: '' @ m)) \<and>
   (\<not> loading s \<and> (error s = None \<or> error s = Some []) \<and> tasks s = [] \<longrightarrow>
      TaskList s = EmptyState ''No tasks yet'' ''Add your first task to get started!'') \<and>
   (\<not> loading s \<and> (error s = None \<or> error s = Some []) \<and> tasks s \<noteq> [] \<longrightarrow>
      TaskList s = Sections
        ((if filter (\<lambda>t. \<not> completed t) (tasks s) = [] then []
          else [Section
                  (''Pending Tasks ('' @
                     show_nat (length (filter (\<lambda>t. \<not> completed t) (tasks s))) @ '')'')
                  (filter (\<lambda>t. \<not> completed t) (tasks s))]) @
         (if filter completed (tasks s) = [] then []
          else [Section
                  (''Completed Tasks ('' @ show_nat (length (filter completed (tasks s))) @ '')'')
                  (filter completed (tasks s))])) \<and>
      (filter (\<lambda>t. \<not> completed t) (tasks s) \<noteq> [] \<or> filter completed (tasks s) \<noteq> []) \<and>
      length (filter (\<lambda>t. \<not> completed t) (tasks s)) + length (filter completed (tasks s)) =
        length (tasks s)) \<and>
   (reachable s \<longrightarrow> error s \<noteq> Some []) \<and>
   (reachable s \<and> \<not> loading s \<and> error s = Some m \<longrightarrow>
      TaskList s = ErrorText (''Error: '' @ m))"
proof -
  have spinner: "loading s \<longrightarrow> TaskList s = Spinner ''Loading tasks...''"
    by (simp add: TaskList_def)
  have err: "\<not> loading s \<and> error s = Some m \<and> m \<noteq> [] \<longrightarrow>
      TaskList s = ErrorText (''Error: '' @ m)"
    by (simp add: TaskList_def truthy_def)
  have falsy: "\<not> truthy (error s)" if "error s = None \<or> error s = Some []"
    using that by (auto simp: truthy_def)
  have empty: "\<not> loading s \<and> (error s = None \<or> error s = Some []) \<and> tasks s = [] \<longrightarrow>
      TaskList s = EmptyState ''No tasks yet'' ''Add your first task to get started!''"
    using falsy by (simp add: TaskList_def)
  have sections: "TaskList s = Sections
        ((if filter (\<lambda>t. \<not> completed t) (tasks s) = [] then []
          else [Section
                  (''Pending Tasks ('' @
                     show_nat (length (filter (\<lambda>t. \<not> completed t) (tasks s))) @ '')'')
                  (filter (\<lambda>t. \<not> completed t) (tasks s))]) @
         (if filter completed (tasks s) = [] then []
          else [Section
                  (''Completed Tasks ('' @ show_nat (length (filter completed (tasks s))) @ '')'')
                  (filter completed (tasks s))]))"
    if "\<not> loading s" and "error s = None \<or> error s = Some []" and "tasks s \<noteq> []"
    using that falsy by (simp add: TaskList_def Let_def)
  have some_group: "tasks s \<noteq> [] \<longrightarrow>
      filter (\<lambda>t. \<not> completed t) (tasks s) \<noteq> [] \<or> filter completed (tasks s) \<noteq> []"
    by (cases "tasks s") auto
  have every_task: "length (filter (\<lambda>t. \<not> completed t) (tasks s)) +
      length (filter completed (tasks s)) = length (tasks s)"
    using sum_length_filter_compl [of completed "tasks s"] by simp
  have nonempty: "reachable s \<longrightarrow> error s \<noteq> Some []"
    by (simp add: reachable_error_nonempty)
  from spinner err empty sections some_group every_task nonempty
  show ?thesis by blast
qed

theorem TaskList_outcomes_witness:
  "TaskList \<lparr>tasks = mockTasks, loading = False, error = None\<rparr> =
     Sections [Section ''Pending Tasks (2)'' (take 2 mockTasks),
               Section ''Completed Tasks (1)'' (drop 2 mockTasks)] \<and>
   TaskList \<lparr>tasks = mockTasks, loading = True, error = Some ''Failed to fetch tasks''\<rparr> =
     Spinner ''Loading tasks...'' \<and>
   TaskList \<lparr>tasks = mockTasks, loading = False, error = Some ''Failed to fetch tasks''\<rparr> =
     ErrorText ''Error: Failed to fetch tasks'' \<and>
   TaskList \<lparr>tasks = [], loading = False, error = None\<rparr> =
     EmptyState ''No tasks yet'' ''Add your first task to get started!'' \<and>
   reachable (tasksReducer (tasksReducer initialState FetchTasksPending)
                (fetchTasks (Failed (AxiosError None)))) \<and>
   TaskList (tasksReducer (tasksReducer initialState FetchTasksPending)
               (fetchTasks (Failed (AxiosError None)))) =
     ErrorText ''Error: Failed to fetch tasks''"
proof -
  let ?r = "tasksReducer (tasksReducer initialState FetchTasksPending)
              (fetchTasks (Failed (AxiosError None)))"
  have r: "reachable ?r"
    by (intro reachable.settled reachable.fetch_pending reachable.initial settles.fetch)
  have e: "\<not> loading ?r \<and> error ?r = Some ''Failed to fetch tasks''"
    by (simp add: fetchTasks_def error_message_def js_or_def initialState_def)
  from r e TaskList_outcomes [of ?r "''Failed to fetch tasks''"]
  have failed: "TaskList ?r = ErrorText (''Error: '' @ ''Failed to fetch tasks'')"
    by blast
  have two: "show_nat (Suc (Suc 0)) = ''2''" and one: "show_nat (Suc 0) = ''1''"
    by (simp_all add: show_nat.simps digit_char_def)
  have "TaskList \<lparr>tasks = mockTasks, loading = False, error = None\<rparr> =
     Sections [Section ''Pending Tasks (2)'' (take 2 mockTasks),
               Section ''Completed Tasks (1)'' (drop 2 mockTasks)]"
    using TaskList_outcomes [of "\<lparr>tasks = mockTasks, loading = False, error = None\<rparr>"]
    by (simp add: mockTasks_def two one)
  moreover have "TaskList \<lparr>tasks = mockTasks, loading = True, error = Some ''Failed to fetch tasks''\<rparr> =
     Spinner ''Loading tasks...''"
    using TaskList_outcomes
      [of "\<lparr>tasks = mockTasks, loading = True, error = Some ''Failed to fetch tasks''\<rparr>"]
    by simp
  moreover have "TaskList \<lparr>tasks = mockTasks, loading = False, error = Some ''Failed to fetch tasks''\<rparr> =
     ErrorText ''Error: Failed to fetch tasks''"
    using TaskList_outcomes
      [of "\<lparr>tasks = mockTasks, loading = False, error = Some ''Failed to fetch tasks''\<rparr>"
          "''Failed to fetch tasks''"]
    by simp
  moreover have "TaskList \<lparr>tasks = [], loading = False, error = None\<rparr> =
     EmptyState ''No tasks yet'' ''Add your first task to get started!''"
    using TaskList_outcomes [of "\<lparr>tasks = [], loading = False, error = None\<rparr>"]
    by simp
  moreover note r
  moreover from failed have "TaskList ?r = ErrorText ''Error: Failed to fetch tasks''"
    by simp
  ultimately show ?thesis by blast
qed

section \<open>clearError\<close>

text \<open>
  C8. For every slice state, \<open>clearError\<close> sets the error slot to none and keeps the
  task list and the loading flag; dispatched through the reducer it does the same. Hence
  applying it twice equals applying it once, and on a state whose error is already none it
  returns the state unchanged.
\<close>

theorem clearError_only_clears_error:
  "error (clearError s) = None \<and> tasks (clearError s) = tasks s \<and>
   loading (clearError s) = loading s \<and>
   tasksReducer s ClearError = s\<lparr>error := None\<rparr> \<and>
   clearError (clearError s) = clearError s \<and>
   tasksReducer (tasksReducer s ClearError) ClearError = tasksReducer s ClearError \<and>
   clearError (s\<lparr>error := None\<rparr>) = s\<lparr>error := None\<rparr>"
  by (simp add: clearError_def)

theorem clearError_only_clears_error_witness:
  "error (clearError \<lparr>tasks = [], loading = True, error = Some ''Some error message''\<rparr>) = None \<and>
   loading (clearError \<lparr>tasks = [], loading = True, error = Some ''Some error message''\<rparr>) = True \<and>
   clearError (clearError \<lparr>tasks = [], loading = True, error = Some ''Some error message''\<rparr>) =
     \<lparr>tasks = [], loading = True, error = None\<rparr>"
  using clearError_only_clears_error
    [of "\<lparr>tasks = [], loading = True, error = Some ''Some error message''\<rparr>"]
  by (simp add: clearError_def)

end
